theory Spec2Isabelle
  imports Main "HOL-Library.Sublist"
begin

section \<open>AutoTrainUnit (torchtnt/runner/auto_unit.py)\<close>

text \<open>
  The class is an orchestration layer: every piece of numerical work is a call into a
  collaborator (the device utilities, the tensor engine, the optimizer, the scheduler) or
  into a method the user overrides. The embedding therefore keeps three things explicit:
  \<^item> the heap, holding the attributes of the unit (\<open>self\<close>), the \<open>State\<close> objects and
    everything else the collaborators own;
  \<^item> the collaborators, as functions from the heap to a result (or an exception) and the
    heap they leave behind;
  \<^item> the trace of the calls made, in the order they are made, with their arguments.
\<close>

subsection \<open>Exceptions\<close>

text \<open>
  An exception raised inside a collaborator is \<open>External\<close>; the two others are the ones the
  statements of this class can raise themselves: \<^verbatim>\<open>assert state.train_state\<close> and the
  modulo of line 123.
\<close>

datatype 'e exn = External 'e | AssertionError | ZeroDivisionError

fun is_external :: "'e exn \<Rightarrow> bool" where
  "is_external (External e) = True"
| "is_external AssertionError = False"
| "is_external ZeroDivisionError = False"

subsection \<open>The objects read by the class\<close>

text \<open>
  Modelled from the spec: the state/progress-tracking object (\<^verbatim>\<open>torchtnt.runner.state\<close>) is
  an external collaborator whose declaration is not part of this file. Only the attributes
  the two methods read are kept: \<^verbatim>\<open>state.train_state\<close> (optional) and
  \<^verbatim>\<open>state.train_state.progress.num_steps_completed\<close> (an integer).
\<close>

record progress =
  num_steps_completed :: int

record phase_state =
  progress :: progress

record state =
  train_state :: "phase_state option"

text \<open>
  The attributes \<^verbatim>\<open>__init__\<close> assigns. The optimizer and the scheduler are references
  (\<open>'opt\<close>, \<open>'sch\<close>); \<^verbatim>\<open>lr_scheduler\<close> is \<open>None\<close> when no scheduler was given.
\<close>

record ('opt, 'sch, 'dev) auto_train_unit =
  optimizer :: 'opt
  lr_scheduler :: "'sch option"
  step_lr_interval :: string
  device :: 'dev
  log_frequency_steps :: int

text \<open>
  The heap: the attributes of the unit, the \<open>State\<close> objects by reference (\<open>'st\<close>), and
  the rest (\<open>ext\<close>: model parameters, gradients, optimizer and scheduler internals,
  metrics, ...).
\<close>

record ('opt, 'sch, 'dev, 'st, 'x) heap =
  self :: "('opt, 'sch, 'dev) auto_train_unit"
  states :: "'st \<Rightarrow> state"
  ext :: 'x

subsection \<open>Calls and collaborators\<close>

datatype ('d, 'dev, 'l, 'o, 'opt, 'sch, 'st) call =
    Super_init
  | Get_device_from_env
  | Copy_data_to_device 'd 'dev
  | Compute_loss 'st 'd
  | Backward 'l
  | Optimizer_step 'opt
  | Optimizer_zero_grad 'opt bool
  | Lr_scheduler_step 'sch
  | Update_metrics 'st 'd 'l 'o
  | Log_metrics 'st int string

fun name :: "('d, 'dev, 'l, 'o, 'opt, 'sch, 'st) call \<Rightarrow> string" where
  "name Super_init = ''super().__init__''"
| "name Get_device_from_env = ''get_device_from_env''"
| "name (Copy_data_to_device d dev) = ''copy_data_to_device''"
| "name (Compute_loss s d) = ''compute_loss''"
| "name (Backward l) = ''loss.backward''"
| "name (Optimizer_step p) = ''optimizer.step''"
| "name (Optimizer_zero_grad p b) = ''optimizer.zero_grad''"
| "name (Lr_scheduler_step s) = ''lr_scheduler.step''"
| "name (Update_metrics s d l out) = ''update_metrics''"
| "name (Log_metrics s n i) = ''log_metrics''"

text \<open>
  A collaborator takes the heap and returns its result, or the exception it raises, together
  with the heap as it leaves it (an exception does not undo what was written before it).
\<close>

type_synonym ('e, 'a, 'h) collaborator = "'h \<Rightarrow> ('e + 'a) \<times> 'h"

record ('e, 'd, 'dev, 'l, 'o, 'opt, 'sch, 'st, 'h) env =
  super_init :: "('e, unit, 'h) collaborator"
  get_device_from_env :: "('e, 'dev, 'h) collaborator"
  copy_data_to_device :: "'d \<Rightarrow> 'dev \<Rightarrow> ('e, 'd, 'h) collaborator"
  compute_loss :: "'st \<Rightarrow> 'd \<Rightarrow> ('e, 'l \<times> 'o, 'h) collaborator"
  backward :: "'l \<Rightarrow> ('e, unit, 'h) collaborator"
  optimizer_step :: "'opt \<Rightarrow> ('e, unit, 'h) collaborator"
  optimizer_zero_grad :: "'opt \<Rightarrow> bool \<Rightarrow> ('e, unit, 'h) collaborator"
  lr_scheduler_step :: "'sch \<Rightarrow> ('e, unit, 'h) collaborator"
  update_metrics :: "'st \<Rightarrow> 'd \<Rightarrow> 'l \<Rightarrow> 'o \<Rightarrow> ('e, unit, 'h) collaborator"
  log_metrics :: "'st \<Rightarrow> int \<Rightarrow> string \<Rightarrow> ('e, unit, 'h) collaborator"

subsection \<open>Statements\<close>

text \<open>
  A method body is a function from the configuration (heap and trace so far) to its outcome
  and the configuration it ends in.
\<close>

type_synonym ('e, 'a, 'h, 'c) prog = "'h \<times> 'c list \<Rightarrow> ('e exn + 'a) \<times> 'h \<times> 'c list"

definition return :: "'a \<Rightarrow> ('e, 'a, 'h, 'c) prog" where
  "return a = (\<lambda>(h, tr). (Inr a, h, tr))"

definition raise :: "'e exn \<Rightarrow> ('e, 'a, 'h, 'c) prog" where
  "raise e = (\<lambda>(h, tr). (Inl e, h, tr))"

definition bind :: "('e, 'a, 'h, 'c) prog \<Rightarrow> ('a \<Rightarrow> ('e, 'b, 'h, 'c) prog) \<Rightarrow> ('e, 'b, 'h, 'c) prog" where
  "bind m f = (\<lambda>c. case m c of (Inl e, c') \<Rightarrow> (Inl e, c') | (Inr a, c') \<Rightarrow> f a c')"

definition read :: "('h \<Rightarrow> 'a) \<Rightarrow> ('e, 'a, 'h, 'c) prog" where
  "read g = (\<lambda>(h, tr). (Inr (g h), h, tr))"

definition assign :: "('h \<Rightarrow> 'h) \<Rightarrow> ('e, unit, 'h, 'c) prog" where
  "assign g = (\<lambda>(h, tr). (Inr (), g h, tr))"

text \<open>A call is recorded when it is made, whether it returns or raises.\<close>

definition invoke :: "'c \<Rightarrow> ('e, 'a, 'h) collaborator \<Rightarrow> ('e, 'a, 'h, 'c) prog" where
  "invoke c f = (\<lambda>(h, tr). case f h of
                    (Inl e, h') \<Rightarrow> (Inl (External e), h', tr @ [c])
                  | (Inr a, h') \<Rightarrow> (Inr a, h', tr @ [c]))"

subsection \<open>The methods of AutoTrainUnit\<close>

type_synonym ('e, 'd, 'dev, 'l, 'o, 'opt, 'sch, 'st, 'x) unit_env =
  "('e, 'd, 'dev, 'l, 'o, 'opt, 'sch, 'st, ('opt, 'sch, 'dev, 'st, 'x) heap) env"

type_synonym ('e, 'a, 'd, 'dev, 'l, 'o, 'opt, 'sch, 'st, 'x) unit_prog =
  "('e, 'a, ('opt, 'sch, 'dev, 'st, 'x) heap, ('d, 'dev, 'l, 'o, 'opt, 'sch, 'st) call) prog"

text \<open>
  \<^verbatim>\<open>__init__(self, *, optimizer, lr_scheduler=None, step_lr_interval="epoch", device=None,
  log_frequency_steps)\<close>. A keyword with a default that the caller leaves out is \<open>None\<close> here.
  For \<^verbatim>\<open>lr_scheduler\<close> and \<^verbatim>\<open>device\<close> the default is Python's \<^verbatim>\<open>None\<close> itself, so leaving
  them out and passing \<^verbatim>\<open>None\<close> are the same call. \<^verbatim>\<open>device or get_device_from_env()\<close>
  evaluates its right operand only when \<^verbatim>\<open>device\<close> is \<^verbatim>\<open>None\<close> (a device object is never
  falsy).
\<close>

definition init ::
  "('e, 'd, 'dev, 'l, 'o, 'opt, 'sch, 'st, 'x) unit_env \<Rightarrow>
   'opt \<Rightarrow> 'sch option \<Rightarrow> string option \<Rightarrow> 'dev option \<Rightarrow> int \<Rightarrow>
   ('e, unit, 'd, 'dev, 'l, 'o, 'opt, 'sch, 'st, 'x) unit_prog"
where
  "init env optimizer' lr_scheduler' step_lr_interval' device' log_frequency_steps' =
     (let step_lr_interval' = (case step_lr_interval' of None \<Rightarrow> ''epoch'' | Some i \<Rightarrow> i) in
      bind (invoke Super_init (super_init env)) (\<lambda>_.
      bind (assign (\<lambda>h. h\<lparr>self := (self h)\<lparr>optimizer := optimizer'\<rparr>\<rparr>)) (\<lambda>_.
      bind (assign (\<lambda>h. h\<lparr>self := (self h)\<lparr>lr_scheduler := lr_scheduler'\<rparr>\<rparr>)) (\<lambda>_.
      bind (assign (\<lambda>h. h\<lparr>self := (self h)\<lparr>step_lr_interval := step_lr_interval'\<rparr>\<rparr>)) (\<lambda>_.
      bind (case device' of
              Some d \<Rightarrow> return d
            | None \<Rightarrow> invoke Get_device_from_env (get_device_from_env env)) (\<lambda>d.
      bind (assign (\<lambda>h. h\<lparr>self := (self h)\<lparr>device := d\<rparr>\<rparr>)) (\<lambda>_.
      assign (\<lambda>h. h\<lparr>self := (self h)\<lparr>log_frequency_steps := log_frequency_steps'\<rparr>\<rparr>))))))))"

text \<open>
  The bodies of \<^verbatim>\<open>update_metrics\<close> and \<^verbatim>\<open>log_metrics\<close> in AutoTrainUnit are \<^verbatim>\<open>pass\<close>:
  they return \<^verbatim>\<open>None\<close> and touch nothing.
\<close>

definition AutoTrainUnit_update_metrics :: "'st \<Rightarrow> 'd \<Rightarrow> 'l \<Rightarrow> 'o \<Rightarrow> ('e, unit, 'h) collaborator" where
  "AutoTrainUnit_update_metrics state data loss outputs = (\<lambda>h. (Inr (), h))"

definition AutoTrainUnit_log_metrics :: "'st \<Rightarrow> int \<Rightarrow> string \<Rightarrow> ('e, unit, 'h) collaborator" where
  "AutoTrainUnit_log_metrics state step interval = (\<lambda>h. (Inr (), h))"

text \<open>
  \<^verbatim>\<open>train_step(self, state, data)\<close>, lines 104 to 127. Every attribute is read from the heap
  at the point where the source reads it. \<^verbatim>\<open>if self.lr_scheduler and ...\<close> tests the scheduler
  for \<^verbatim>\<open>None\<close> (a scheduler object is never falsy), and \<^verbatim>\<open>assert state.train_state\<close>
  likewise (assertions are enabled, as they are unless Python runs with \<^verbatim>\<open>-O\<close>).
  Python's \<^verbatim>\<open>%\<close> on integers raises on a zero divisor and is otherwise the floored
  remainder, which is \<open>mod\<close> on \<open>int\<close>.
\<close>

definition train_step ::
  "('e, 'd, 'dev, 'l, 'o, 'opt, 'sch, 'st, 'x) unit_env \<Rightarrow> 'st \<Rightarrow> 'd \<Rightarrow>
   ('e, 'l \<times> 'o, 'd, 'dev, 'l, 'o, 'opt, 'sch, 'st, 'x) unit_prog"
where
  "train_step env state data =
     bind (read (\<lambda>h. device (self h))) (\<lambda>dev.
     bind (invoke (Copy_data_to_device data dev) (copy_data_to_device env data dev)) (\<lambda>data.
     bind (invoke (Compute_loss state data) (compute_loss env state data)) (\<lambda>(loss, outputs).
     bind (invoke (Backward loss) (backward env loss)) (\<lambda>_.
     bind (read (\<lambda>h. optimizer (self h))) (\<lambda>opt.
     bind (invoke (Optimizer_step opt) (optimizer_step env opt)) (\<lambda>_.
     bind (read (\<lambda>h. optimizer (self h))) (\<lambda>opt.
     bind (invoke (Optimizer_zero_grad opt True) (optimizer_zero_grad env opt True)) (\<lambda>_.
     bind (read (\<lambda>h. self h)) (\<lambda>u.
     bind (case lr_scheduler u of
             Some sch \<Rightarrow>
               if step_lr_interval u = ''step''
               then invoke (Lr_scheduler_step sch) (lr_scheduler_step env sch)
               else return ()
           | None \<Rightarrow> return ()) (\<lambda>_.
     bind (invoke (Update_metrics state data loss outputs)
                  (update_metrics env state data loss outputs)) (\<lambda>_.
     bind (read (\<lambda>h. train_state (states h state))) (\<lambda>ts.
     case ts of
       None \<Rightarrow> raise AssertionError
     | Some ts \<Rightarrow>
         let step_count = num_steps_completed (progress ts) in
         bind (read (\<lambda>h. log_frequency_steps (self h))) (\<lambda>freq.
         bind (if freq = 0 then raise ZeroDivisionError
               else if (step_count + 1) mod freq = 0
               then invoke (Log_metrics state step_count ''step'')
                           (log_metrics env state step_count ''step'')
               else return ()) (\<lambda>_.
         return (loss, outputs)))))))))))))))"

text \<open>\<^verbatim>\<open>on_train_epoch_end(self, state)\<close>, lines 129 to 138.\<close>

definition on_train_epoch_end ::
  "('e, 'd, 'dev, 'l, 'o, 'opt, 'sch, 'st, 'x) unit_env \<Rightarrow> 'st \<Rightarrow>
   ('e, unit, 'd, 'dev, 'l, 'o, 'opt, 'sch, 'st, 'x) unit_prog"
where
  "on_train_epoch_end env state =
     bind (read (\<lambda>h. self h)) (\<lambda>u.
     bind (case lr_scheduler u of
             Some sch \<Rightarrow>
               if step_lr_interval u = ''epoch''
               then invoke (Lr_scheduler_step sch) (lr_scheduler_step env sch)
               else return ()
           | None \<Rightarrow> return ()) (\<lambda>_.
     bind (read (\<lambda>h. train_state (states h state))) (\<lambda>ts.
     case ts of
       None \<Rightarrow> raise AssertionError
     | Some ts \<Rightarrow>
         let step_count = num_steps_completed (progress ts) in
         invoke (Log_metrics state step_count ''epoch'')
                (log_metrics env state step_count ''epoch''))))"

subsection \<open>Class declarations\<close>

text \<open>
  The \<^verbatim>\<open>def\<close>s of the class body, in source order, each with whether it carries
  \<^verbatim>\<open>@abstractmethod\<close>.
\<close>

definition AutoTrainUnit_namespace :: "(string \<times> bool) list" where
  "AutoTrainUnit_namespace =
     [(''__init__'', False), (''compute_loss'', True), (''update_metrics'', False),
      (''log_metrics'', False), (''train_step'', False), (''on_train_epoch_end'', False)]"

text \<open>
  The abstract methods of a class deriving from \<^verbatim>\<open>ABC\<close>: the names its body declares
  abstract, and the abstract names of its bases that its body does not define. A class can
  be instantiated when this list is empty. The base \<^verbatim>\<open>TrainUnit\<close> is declared outside this
  file, so its abstract names are the parameter \<open>inherited\<close>.
\<close>

definition abstractmethods :: "string list \<Rightarrow> (string \<times> bool) list \<Rightarrow> string list" where
  "abstractmethods inherited namespace =
     map fst (filter snd namespace) @ filter (\<lambda>n. n \<notin> set (map fst namespace)) inherited"

subsection \<open>Observations\<close>

definition outcome :: "'r \<times> 'h \<times> 'c list \<Rightarrow> 'r" where
  "outcome r = fst r"

definition final_heap :: "'r \<times> 'h \<times> 'c list \<Rightarrow> 'h" where
  "final_heap r = fst (snd r)"

definition calls :: "'r \<times> 'h \<times> 'c list \<Rightarrow> 'c list" where
  "calls r = snd (snd r)"

text \<open>
  What lines 115 and 116 (with \<^verbatim>\<open>"step"\<close>) and lines 132 and 133 (with \<^verbatim>\<open>"epoch"\<close>) do
  to the heap: the scheduler's step when there is a scheduler and the interval is the given
  one, nothing otherwise. Used to say that this stage of a call returned.
\<close>

definition lr_scheduler_stage ::
  "('e, 'd, 'dev, 'l, 'o, 'opt, 'sch, 'st, 'x) unit_env \<Rightarrow> string \<Rightarrow>
   ('e, unit, ('opt, 'sch, 'dev, 'st, 'x) heap) collaborator"
where
  "lr_scheduler_stage env interval h =
     (case lr_scheduler (self h) of
        Some sch \<Rightarrow>
          if step_lr_interval (self h) = interval then lr_scheduler_step env sch h
          else (Inr (), h)
      | None \<Rightarrow> (Inr (), h))"

definition lr_scheduler_calls ::
  "('opt, 'sch, 'dev, 'st, 'x) heap \<Rightarrow> string \<Rightarrow> ('d, 'dev, 'l, 'o, 'opt, 'sch, 'st) call list"
where
  "lr_scheduler_calls h interval =
     (case lr_scheduler (self h) of
        Some sch \<Rightarrow> if step_lr_interval (self h) = interval then [Lr_scheduler_step sch] else []
      | None \<Rightarrow> [])"

text \<open>A collaborator keeps an observation \<open>g\<close> of the heap when no call of it changes \<open>g\<close>.\<close>

definition keeps :: "('h \<Rightarrow> 'a) \<Rightarrow> ('e, 'b, 'h) collaborator \<Rightarrow> bool" where
  "keeps g f \<longleftrightarrow> (\<forall>h. g (snd (f h)) = g h)"

definition collaborators_keep ::
  "(('opt, 'sch, 'dev, 'st, 'x) heap \<Rightarrow> 'a) \<Rightarrow> ('e, 'd, 'dev, 'l, 'o, 'opt, 'sch, 'st, 'x) unit_env \<Rightarrow> bool"
where
  "collaborators_keep g env \<longleftrightarrow>
     (\<forall>d dev. keeps g (copy_data_to_device env d dev)) \<and>
     (\<forall>s d. keeps g (compute_loss env s d)) \<and>
     (\<forall>l. keeps g (backward env l)) \<and>
     (\<forall>p. keeps g (optimizer_step env p)) \<and>
     (\<forall>p b. keeps g (optimizer_zero_grad env p b)) \<and>
     (\<forall>sch. keeps g (lr_scheduler_step env sch)) \<and>
     (\<forall>s d l out. keeps g (update_metrics env s d l out)) \<and>
     (\<forall>s n i. keeps g (log_metrics env s n i))"

subsection \<open>A concrete unit\<close>

text \<open>
  A small instance on which the statements below are evaluated: batches, references and
  the rest of the heap are numbers, devices and exceptions are strings. Copying to the
  device adds 100 to the batch, the loss of batch \<open>d\<close> is \<open>d\<close> with outputs \<open>2 * d\<close>,
  the optimizer's step counts the parameter updates in \<open>ext\<close>, the scheduler's step adds
  1000 to it, and the metric hooks are the ones of AutoTrainUnit.
\<close>

definition demo_env :: "(string, nat, string, int, nat, nat, nat, nat, nat) unit_env" where
  "demo_env =
     \<lparr> super_init = (\<lambda>h. (Inr (), h)),
       get_device_from_env = (\<lambda>h. (Inr ''cpu'', h)),
       copy_data_to_device = (\<lambda>d dev h. (Inr (d + 100), h)),
       compute_loss = (\<lambda>s d h. (Inr (int d, 2 * d), h)),
       backward = (\<lambda>l h. (Inr (), h)),
       optimizer_step = (\<lambda>p h. (Inr (), h\<lparr>ext := ext h + 1\<rparr>)),
       optimizer_zero_grad = (\<lambda>p b h. (Inr (), h)),
       lr_scheduler_step = (\<lambda>sch h. (Inr (), h\<lparr>ext := ext h + 1000\<rparr>)),
       update_metrics = AutoTrainUnit_update_metrics,
       log_metrics = AutoTrainUnit_log_metrics \<rparr>"

definition demo_unit :: "(nat, nat, string) auto_train_unit" where
  "demo_unit =
     \<lparr> optimizer = 7, lr_scheduler = Some 9, step_lr_interval = ''step'',
       device = ''cuda:0'', log_frequency_steps = 2 \<rparr>"

definition demo_state :: "int \<Rightarrow> state" where
  "demo_state n = \<lparr> train_state = Some \<lparr> progress = \<lparr> num_steps_completed = n \<rparr> \<rparr> \<rparr>"

definition demo_state_unset :: state where
  "demo_state_unset = \<lparr> train_state = None \<rparr>"

text \<open>
  The heap in which the unit has the attributes \<open>u\<close>, every \<open>State\<close> reference holds \<open>s\<close>
  and \<open>x\<close> parameter updates have been counted.
\<close>

definition demo_heap ::
  "(nat, nat, string) auto_train_unit \<Rightarrow> state \<Rightarrow> nat \<Rightarrow> (nat, nat, string, nat, nat) heap"
where
  "demo_heap u s x = \<lparr> self = u, states = (\<lambda>r. s), ext = x \<rparr>"

text \<open>The same collaborators with a \<^verbatim>\<open>compute_loss\<close> that raises.\<close>

definition demo_env_failing :: "(string, nat, string, int, nat, nat, nat, nat, nat) unit_env" where
  "demo_env_failing = demo_env\<lparr>compute_loss := (\<lambda>s d h. (Inl ''loss is nan'', h))\<rparr>"

text \<open>The same collaborators with a \<^verbatim>\<open>copy_data_to_device\<close> that raises.\<close>

definition demo_env_no_device :: "(string, nat, string, int, nat, nat, nat, nat, nat) unit_env" where
  "demo_env_no_device =
     demo_env\<lparr>copy_data_to_device := (\<lambda>d dev h. (Inl ''no such device'', h))\<rparr>"

subsection \<open>Running a method to a property of its result\<close>

text \<open>\<open>after m c Q\<close>: the result of running \<open>m\<close> from the configuration \<open>c\<close> satisfies \<open>Q\<close>.\<close>

definition after :: "('c \<Rightarrow> 'r) \<Rightarrow> 'c \<Rightarrow> ('r \<Rightarrow> bool) \<Rightarrow> bool" where
  "after m c Q \<longleftrightarrow> Q (m c)"

section \<open>Rules for running a method\<close>

lemma outcome_tuple: "outcome (r, h, tr) = r"
  by (simp add: outcome_def)

lemma final_heap_tuple: "final_heap (r, h, tr) = h"
  by (simp add: final_heap_def)

lemma calls_tuple: "calls (r, h, tr) = tr"
  by (simp add: calls_def)

lemmas result_simps = outcome_tuple final_heap_tuple calls_tuple

lemma afterD: "after m c Q \<Longrightarrow> Q (m c)"
  by (simp add: after_def)

lemma after_return: "Q (Inr a, h, tr) \<Longrightarrow> after (return a) (h, tr) Q"
  by (simp add: after_def return_def)

lemma after_raise: "Q (Inl e, h, tr) \<Longrightarrow> after (raise e) (h, tr) Q"
  by (simp add: after_def raise_def)

lemma after_assign: "Q (Inr (), g h, tr) \<Longrightarrow> after (assign g) (h, tr) Q"
  by (simp add: after_def assign_def)

lemma after_invoke:
  "(\<And>e h'. g h = (Inl e, h') \<Longrightarrow> Q (Inl (External e), h', tr @ [c])) \<Longrightarrow>
   (\<And>a h'. g h = (Inr a, h') \<Longrightarrow> Q (Inr a, h', tr @ [c])) \<Longrightarrow>
   after (invoke c g) (h, tr) Q"
  by (simp add: after_def invoke_def split: prod.split sum.split)

lemma after_bind_invoke:
  "(\<And>e h'. g h = (Inl e, h') \<Longrightarrow> Q (Inl (External e), h', tr @ [c])) \<Longrightarrow>
   (\<And>a h'. g h = (Inr a, h') \<Longrightarrow> after (f a) (h', tr @ [c]) Q) \<Longrightarrow>
   after (bind (invoke c g) f) (h, tr) Q"
  by (simp add: after_def bind_def invoke_def split: prod.split sum.split)

lemma after_bind_read: "after (f (g h)) (h, tr) Q \<Longrightarrow> after (bind (read g) f) (h, tr) Q"
  by (simp add: after_def bind_def read_def)

lemma after_bind_assign: "after (f ()) (g h, tr) Q \<Longrightarrow> after (bind (assign g) f) (h, tr) Q"
  by (simp add: after_def bind_def assign_def)

lemma after_bind_return: "after (f a) (h, tr) Q \<Longrightarrow> after (bind (return a) f) (h, tr) Q"
  by (simp add: after_def bind_def return_def)

lemma after_bind_raise: "Q (Inl e, h, tr) \<Longrightarrow> after (bind (raise e) f) (h, tr) Q"
  by (simp add: after_def bind_def raise_def)

lemma after_bind_option:
  "(x = None \<Longrightarrow> after (bind m f) c Q) \<Longrightarrow>
   (\<And>y. x = Some y \<Longrightarrow> after (bind (k y) f) c Q) \<Longrightarrow>
   after (bind (case x of None \<Rightarrow> m | Some y \<Rightarrow> k y) f) c Q"
  by (cases x) simp_all

lemma after_bind_if:
  "(b \<Longrightarrow> after (bind m f) c Q) \<Longrightarrow> (\<not> b \<Longrightarrow> after (bind k f) c Q) \<Longrightarrow>
   after (bind (if b then m else k) f) c Q"
  by simp

lemma after_option:
  "(x = None \<Longrightarrow> after m c Q) \<Longrightarrow> (\<And>y. x = Some y \<Longrightarrow> after (k y) c Q) \<Longrightarrow>
   after (case x of None \<Rightarrow> m | Some y \<Rightarrow> k y) c Q"
  by (cases x) simp_all

lemma after_if:
  "(b \<Longrightarrow> after m c Q) \<Longrightarrow> (\<not> b \<Longrightarrow> after k c Q) \<Longrightarrow> after (if b then m else k) c Q"
  by simp

lemma after_prod:
  "(\<And>x y. a = (x, y) \<Longrightarrow> after (F x y) c Q) \<Longrightarrow> after (case a of (x, y) \<Rightarrow> F x y) c Q"
  by (cases a) simp

lemmas after_steps = after_bind_read after_bind_assign after_bind_return
  after_bind_raise after_bind_option after_bind_if after_option after_if after_prod
  after_return after_raise after_assign

lemmas after_rules = after_bind_invoke after_invoke after_steps

text \<open>The same steps when the result of the call is known.\<close>

lemma after_bind_invoke_Inr:
  "g h = (Inr a, h') \<Longrightarrow> after (f a) (h', tr @ [c]) Q \<Longrightarrow> after (bind (invoke c g) f) (h, tr) Q"
  by (simp add: after_def bind_def invoke_def)

lemma after_bind_invoke_Inl:
  "g h = (Inl e, h') \<Longrightarrow> Q (Inl (External e), h', tr @ [c]) \<Longrightarrow>
   after (bind (invoke c g) f) (h, tr) Q"
  by (simp add: after_def bind_def invoke_def)

lemma after_pair: "after (F x y) c Q \<Longrightarrow> after (case (x, y) of (x, y) \<Rightarrow> F x y) c Q"
  by simp

lemma after_bind_lr_scheduler:
  assumes "lr_scheduler_stage env i h = (Inr (), h')"
      and "after (f ()) (h', tr @ lr_scheduler_calls h i) Q"
  shows "after (bind (case lr_scheduler (self h) of
                        Some sch \<Rightarrow>
                          if step_lr_interval (self h) = i
                          then invoke (Lr_scheduler_step sch) (lr_scheduler_step env sch)
                          else return ()
                      | None \<Rightarrow> return ()) f) (h, tr) Q"
proof (cases "lr_scheduler (self h)")
  case None
  with assms show ?thesis
    by (simp add: lr_scheduler_stage_def lr_scheduler_calls_def after_def bind_def return_def)
next
  case (Some sch)
  show ?thesis
  proof (cases "step_lr_interval (self h) = i")
    case True
    with Some assms show ?thesis
      by (simp add: lr_scheduler_stage_def lr_scheduler_calls_def after_def bind_def invoke_def)
  next
    case False
    with Some assms show ?thesis
      by (simp add: lr_scheduler_stage_def lr_scheduler_calls_def after_def bind_def return_def)
  qed
qed

text \<open>The same steps under a collaborator that keeps an observation of the heap.\<close>

lemma keepsD: "keeps g f \<Longrightarrow> f h = (r, h') \<Longrightarrow> g h' = g h"
  by (auto simp add: keeps_def dest: spec [of _ h])

lemma after_bind_invoke_keeps:
  assumes "keeps v g"
      and "\<And>e h'. v h' = v h \<Longrightarrow> Q (Inl (External e), h', tr @ [c])"
      and "\<And>a h'. v h' = v h \<Longrightarrow> after (f a) (h', tr @ [c]) Q"
  shows "after (bind (invoke c g) f) (h, tr) Q"
  using assms(2,3) keepsD [OF assms(1)] by (intro after_bind_invoke) blast+

lemma after_invoke_keeps:
  assumes "keeps v g"
      and "\<And>e h'. v h' = v h \<Longrightarrow> Q (Inl (External e), h', tr @ [c])"
      and "\<And>a h'. v h' = v h \<Longrightarrow> Q (Inr a, h', tr @ [c])"
  shows "after (invoke c g) (h, tr) Q"
  using assms(2,3) keepsD [OF assms(1)] by (intro after_invoke) blast+

lemma Log_metrics_notin_lr_scheduler_calls: "Log_metrics s n i \<notin> set (lr_scheduler_calls h j)"
  by (simp add: lr_scheduler_calls_def split: option.split)

section \<open>The two methods from the point where their calls have returned\<close>

text \<open>
  \<^verbatim>\<open>train_step\<close> once the calls of lines 105 to 119 have returned: what is left is the
  assertion and the logging check of lines 121 to 125, run in the heap \<open>h7\<close> that
  \<^verbatim>\<open>update_metrics\<close> left.
\<close>

lemma train_step_from_line_121:
  assumes "copy_data_to_device env data (device (self h)) h = (Inr data', h1)"
      and "compute_loss env st data' h1 = (Inr (loss, outputs), h2)"
      and "backward env loss h2 = (Inr (), h3)"
      and "optimizer_step env (optimizer (self h3)) h3 = (Inr (), h4)"
      and "optimizer_zero_grad env (optimizer (self h4)) True h4 = (Inr (), h5)"
      and "lr_scheduler_stage env ''step'' h5 = (Inr (), h6)"
      and "update_metrics env st data' loss outputs h6 = (Inr (), h7)"
  shows "train_step env st data (h, []) =
     (let tr7 = [Copy_data_to_device data (device (self h)), Compute_loss st data',
                 Backward loss, Optimizer_step (optimizer (self h3)),
                 Optimizer_zero_grad (optimizer (self h4)) True]
                @ lr_scheduler_calls h5 ''step'' @ [Update_metrics st data' loss outputs]
      in case train_state (states h7 st) of
           None \<Rightarrow> (Inl AssertionError, h7, tr7)
         | Some ts \<Rightarrow>
             if log_frequency_steps (self h7) = 0 then (Inl ZeroDivisionError, h7, tr7)
             else if (num_steps_completed (progress ts) + 1) mod log_frequency_steps (self h7) = 0
             then (case log_metrics env st (num_steps_completed (progress ts)) ''step'' h7 of
                     (Inl e, h8) \<Rightarrow>
                       (Inl (External e), h8,
                        tr7 @ [Log_metrics st (num_steps_completed (progress ts)) ''step''])
                   | (Inr u, h8) \<Rightarrow>
                       (Inr (loss, outputs), h8,
                        tr7 @ [Log_metrics st (num_steps_completed (progress ts)) ''step'']))
             else (Inr (loss, outputs), h7, tr7))"
    (is "_ = ?rhs")
proof -
  have "after (train_step env st data) (h, []) (\<lambda>r. r = ?rhs)"
    unfolding train_step_def Let_def
    apply (rule after_bind_read)
    apply (rule after_bind_invoke_Inr, rule assms)
    apply (rule after_bind_invoke_Inr, rule assms)
    apply (rule after_pair)
    apply (rule after_bind_invoke_Inr, rule assms)
    apply (rule after_bind_read)
    apply (rule after_bind_invoke_Inr, rule assms)
    apply (rule after_bind_read)
    apply (rule after_bind_invoke_Inr, rule assms)
    apply (rule after_bind_read)
    apply (rule after_bind_lr_scheduler, rule assms)
    apply (rule after_bind_invoke_Inr, rule assms)
    apply (intro after_rules)
    apply simp_all
    done
  then show ?thesis by (rule afterD)
qed

text \<open>
  \<^verbatim>\<open>on_train_epoch_end\<close> once the scheduler stage of lines 132 and 133 has returned, leaving
  the heap \<open>h1\<close>.
\<close>

lemma on_train_epoch_end_from_line_135:
  assumes "lr_scheduler_stage env ''epoch'' h = (Inr (), h1)"
  shows "on_train_epoch_end env st (h, []) =
     (case train_state (states h1 st) of
        None \<Rightarrow> (Inl AssertionError, h1, lr_scheduler_calls h ''epoch'')
      | Some ts \<Rightarrow>
          (case log_metrics env st (num_steps_completed (progress ts)) ''epoch'' h1 of
             (Inl e, h2) \<Rightarrow>
               (Inl (External e), h2,
                lr_scheduler_calls h ''epoch''
                  @ [Log_metrics st (num_steps_completed (progress ts)) ''epoch''])
           | (Inr u, h2) \<Rightarrow>
               (Inr (), h2,
                lr_scheduler_calls h ''epoch''
                  @ [Log_metrics st (num_steps_completed (progress ts)) ''epoch''])))"
    (is "_ = ?rhs")
proof -
  have "after (on_train_epoch_end env st) (h, []) (\<lambda>r. r = ?rhs)"
    unfolding on_train_epoch_end_def Let_def
    apply (rule after_bind_read)
    apply (rule after_bind_lr_scheduler, rule assms)
    apply (intro after_rules)
    apply simp_all
    done
  then show ?thesis by (rule afterD)
qed

text \<open>The calls of the concrete unit.\<close>

lemma demo_env_calls:
  "copy_data_to_device demo_env d dev h = (Inr (d + 100), h)"
  "compute_loss demo_env s d h = (Inr (int d, 2 * d), h)"
  "backward demo_env l h = (Inr (), h)"
  "optimizer_step demo_env p (demo_heap u t x) = (Inr (), demo_heap u t (x + 1))"
  "optimizer_zero_grad demo_env p b h = (Inr (), h)"
  "lr_scheduler_step demo_env sch (demo_heap u t x) = (Inr (), demo_heap u t (x + 1000))"
  "update_metrics demo_env s d l out h = (Inr (), h)"
  "log_metrics demo_env s n i h = (Inr (), h)"
  "super_init demo_env h = (Inr (), h)"
  "get_device_from_env demo_env h = (Inr ''cpu'', h)"
  by (simp_all add: demo_env_def demo_heap_def AutoTrainUnit_update_metrics_def
        AutoTrainUnit_log_metrics_def)

lemma demo_heap_sel:
  "self (demo_heap u t x) = u"
  "states (demo_heap u t x) s = t"
  "ext (demo_heap u t x) = x"
  by (simp_all add: demo_heap_def)

lemma demo_unit_sel:
  "optimizer demo_unit = 7"
  "lr_scheduler demo_unit = Some 9"
  "step_lr_interval demo_unit = ''step''"
  "device demo_unit = ''cuda:0''"
  "log_frequency_steps demo_unit = 2"
  by (simp_all add: demo_unit_def)

lemma demo_lr_scheduler_stage:
  "lr_scheduler_stage demo_env ''step'' (demo_heap demo_unit t x)
     = (Inr (), demo_heap demo_unit t (x + 1000))"
  "lr_scheduler_stage demo_env ''epoch'' (demo_heap demo_unit t x)
     = (Inr (), demo_heap demo_unit t x)"
  "lr_scheduler_calls (demo_heap demo_unit t x) ''step'' = [Lr_scheduler_step 9]"
  "lr_scheduler_calls (demo_heap demo_unit t x) ''epoch'' = []"
  by (simp_all add: lr_scheduler_stage_def lr_scheduler_calls_def demo_heap_sel demo_unit_sel
        demo_env_calls)

lemmas demo_simps = demo_env_calls demo_heap_sel demo_unit_sel demo_lr_scheduler_stage

lemma demo_train_step:
  "train_step demo_env 0 5 (demo_heap demo_unit t 0, []) =
     (let tr7 = [Copy_data_to_device 5 ''cuda:0'', Compute_loss 0 105, Backward 105,
                 Optimizer_step 7, Optimizer_zero_grad 7 True, Lr_scheduler_step 9,
                 Update_metrics 0 105 105 210]
      in case train_state t of
           None \<Rightarrow> (Inl AssertionError, demo_heap demo_unit t 1001, tr7)
         | Some ts \<Rightarrow>
             if (num_steps_completed (progress ts) + 1) mod 2 = 0
             then (Inr (105, 210), demo_heap demo_unit t 1001,
                   tr7 @ [Log_metrics 0 (num_steps_completed (progress ts)) ''step''])
             else (Inr (105, 210), demo_heap demo_unit t 1001, tr7))"
  by (subst train_step_from_line_121
        [where data' = 105 and loss = 105 and outputs = 210
           and ?h1.0 = "demo_heap demo_unit t 0" and ?h2.0 = "demo_heap demo_unit t 0"
           and ?h3.0 = "demo_heap demo_unit t 0" and ?h4.0 = "demo_heap demo_unit t 1"
           and ?h5.0 = "demo_heap demo_unit t 1" and ?h6.0 = "demo_heap demo_unit t 1001"
           and ?h7.0 = "demo_heap demo_unit t 1001"])
     (simp_all add: demo_simps Let_def split: option.split)

section \<open>The claims\<close>

subsection \<open>C1: the order of the optimization step\<close>

lemma train_step_names:
  "after (train_step env st data) (h, [])
     (\<lambda>r. prefix (take 5 (map name (calls r)))
        [''copy_data_to_device'', ''compute_loss'', ''loss.backward'', ''optimizer.step'',
         ''optimizer.zero_grad''])"
  unfolding train_step_def Let_def
  by (intro after_rules) (simp_all add: result_simps)

lemma train_step_first_five:
  assumes "copy_data_to_device env data (device (self h)) h = (Inr data', h1)"
      and "compute_loss env st data' h1 = (Inr (loss, outputs), h2)"
      and "backward env loss h2 = (Inr (), h3)"
      and "optimizer_step env (optimizer (self h3)) h3 = (Inr (), h4)"
  shows "after (train_step env st data) (h, [])
     (\<lambda>r. take 5 (calls r) =
        [Copy_data_to_device data (device (self h)), Compute_loss st data', Backward loss,
         Optimizer_step (optimizer (self h3)), Optimizer_zero_grad (optimizer (self h4)) True])"
  unfolding train_step_def Let_def
  apply (rule after_bind_read)
  apply (rule after_bind_invoke_Inr, rule assms)
  apply (rule after_bind_invoke_Inr, rule assms)
  apply (rule after_pair)
  apply (rule after_bind_invoke_Inr, rule assms)
  apply (rule after_bind_read)
  apply (rule after_bind_invoke_Inr, rule assms)
  apply (intro after_rules)
  apply (simp_all add: result_simps)
  done

text \<open>
  C1. In every call of \<^verbatim>\<open>train_step\<close> the first five calls made are, in this order, an initial
  segment of: \<^verbatim>\<open>copy_data_to_device\<close>, \<^verbatim>\<open>compute_loss\<close>, \<^verbatim>\<open>loss.backward\<close>,
  \<^verbatim>\<open>optimizer.step\<close>, \<^verbatim>\<open>optimizer.zero_grad\<close> (the segment is cut where a call raises). When the
  first four return, all five are made: the batch is copied to the unit's device,
  \<^verbatim>\<open>compute_loss\<close> gets the copied batch, \<^verbatim>\<open>backward\<close> is called on the loss it returned, then
  \<^verbatim>\<open>step\<close> and \<^verbatim>\<open>zero_grad(set_to_none=True)\<close> on the unit's optimizer.
\<close>

theorem train_step_sgd_order:
  "prefix (take 5 (map name (calls (train_step env st data (h, [])))))
     [''copy_data_to_device'', ''compute_loss'', ''loss.backward'', ''optimizer.step'',
      ''optimizer.zero_grad'']
   \<and> (copy_data_to_device env data (device (self h)) h = (Inr data', h1) \<longrightarrow>
      compute_loss env st data' h1 = (Inr (loss, outputs), h2) \<longrightarrow>
      backward env loss h2 = (Inr (), h3) \<longrightarrow>
      optimizer_step env (optimizer (self h3)) h3 = (Inr (), h4) \<longrightarrow>
      take 5 (calls (train_step env st data (h, []))) =
        [Copy_data_to_device data (device (self h)), Compute_loss st data', Backward loss,
         Optimizer_step (optimizer (self h3)), Optimizer_zero_grad (optimizer (self h4)) True])"
proof (intro conjI impI)
  show "prefix (take 5 (map name (calls (train_step env st data (h, [])))))
     [''copy_data_to_device'', ''compute_loss'', ''loss.backward'', ''optimizer.step'',
      ''optimizer.zero_grad'']"
    by (rule afterD [OF train_step_names])
next
  assume "copy_data_to_device env data (device (self h)) h = (Inr data', h1)"
     and "compute_loss env st data' h1 = (Inr (loss, outputs), h2)"
     and "backward env loss h2 = (Inr (), h3)"
     and "optimizer_step env (optimizer (self h3)) h3 = (Inr (), h4)"
  then show "take 5 (calls (train_step env st data (h, []))) =
        [Copy_data_to_device data (device (self h)), Compute_loss st data', Backward loss,
         Optimizer_step (optimizer (self h3)), Optimizer_zero_grad (optimizer (self h4)) True]"
    by (rule afterD [OF train_step_first_five])
qed

theorem train_step_sgd_order_witness:
  "copy_data_to_device demo_env 5 (device (self (demo_heap demo_unit (demo_state 3) 0)))
     (demo_heap demo_unit (demo_state 3) 0) = (Inr 105, demo_heap demo_unit (demo_state 3) 0) \<and>
   compute_loss demo_env 0 105 (demo_heap demo_unit (demo_state 3) 0)
     = (Inr (105, 210), demo_heap demo_unit (demo_state 3) 0) \<and>
   backward demo_env 105 (demo_heap demo_unit (demo_state 3) 0)
     = (Inr (), demo_heap demo_unit (demo_state 3) 0) \<and>
   optimizer_step demo_env (optimizer (self (demo_heap demo_unit (demo_state 3) 0)))
     (demo_heap demo_unit (demo_state 3) 0) = (Inr (), demo_heap demo_unit (demo_state 3) 1) \<and>
   take 5 (calls (train_step demo_env 0 5 (demo_heap demo_unit (demo_state 3) 0, []))) =
     [Copy_data_to_device 5 ''cuda:0'', Compute_loss 0 105, Backward 105,
      Optimizer_step 7, Optimizer_zero_grad 7 True]"
proof -
  let ?h = "demo_heap demo_unit (demo_state 3) 0"
  have a: "copy_data_to_device demo_env 5 (device (self ?h)) ?h = (Inr 105, ?h)"
    by (simp add: demo_env_def)
  have b: "compute_loss demo_env 0 105 ?h = (Inr (105, 210), ?h)"
    by (simp add: demo_env_def)
  have c: "backward demo_env 105 ?h = (Inr (), ?h)"
    by (simp add: demo_env_def)
  have d: "optimizer_step demo_env (optimizer (self ?h)) ?h
             = (Inr (), demo_heap demo_unit (demo_state 3) 1)"
    by (simp add: demo_env_def demo_heap_def)
  have e: "device (self ?h) = ''cuda:0''" "optimizer (self ?h) = 7"
          "optimizer (self (demo_heap demo_unit (demo_state 3) 1)) = 7"
    by (simp_all add: demo_heap_def demo_unit_def)
  from train_step_sgd_order [where env = demo_env and st = 0 and data = 5 and h = ?h
      and data' = 105 and ?h1.0 = ?h and loss = 105 and outputs = 210 and ?h2.0 = ?h
      and ?h3.0 = ?h and ?h4.0 = "demo_heap demo_unit (demo_state 3) 1"] a b c d
  have "take 5 (calls (train_step demo_env 0 5 (?h, []))) =
        [Copy_data_to_device 5 (device (self ?h)), Compute_loss 0 105, Backward 105,
         Optimizer_step (optimizer (self ?h)),
         Optimizer_zero_grad (optimizer (self (demo_heap demo_unit (demo_state 3) 1))) True]"
    by blast
  with a b c d e show ?thesis by simp
qed

subsection \<open>C2: when the scheduler is stepped\<close>






subsection \<open>C3: when log_metrics is called\<close>





subsection \<open>C4: an exception of compute_loss\<close>

text \<open>
  C4. If \<^verbatim>\<open>compute_loss\<close> raises \<open>e\<close> (the copy to the device having returned), the call
  of \<^verbatim>\<open>train_step\<close> ends with that same \<open>e\<close>, the only calls made are the copy and
  \<^verbatim>\<open>compute_loss\<close> (so none of \<^verbatim>\<open>backward\<close>, \<^verbatim>\<open>optimizer.step\<close>, \<^verbatim>\<open>optimizer.zero_grad\<close>,
  \<^verbatim>\<open>lr_scheduler.step\<close>, \<^verbatim>\<open>update_metrics\<close>, \<^verbatim>\<open>log_metrics\<close>), and the heap is the one
  \<^verbatim>\<open>compute_loss\<close> left.
\<close>

theorem compute_loss_exception_propagates:
  assumes "copy_data_to_device env data (device (self h)) h = (Inr data', h1)"
      and "compute_loss env st data' h1 = (Inl e, h2)"
  shows "train_step env st data (h, []) =
     (Inl (External e), h2,
      [Copy_data_to_device data (device (self h)), Compute_loss st data'])"
proof -
  have "after (train_step env st data) (h, [])
          (\<lambda>r. r = (Inl (External e), h2,
                     [Copy_data_to_device data (device (self h)), Compute_loss st data']))"
    unfolding train_step_def
    apply (rule after_bind_read)
    apply (rule after_bind_invoke_Inr, rule assms)
    apply (rule after_bind_invoke_Inl, rule assms)
    apply simp
    done
  then show ?thesis by (rule afterD)
qed

theorem compute_loss_exception_propagates_witness:
  "copy_data_to_device demo_env_failing 5 (device (self (demo_heap demo_unit (demo_state 3) 0)))
     (demo_heap demo_unit (demo_state 3) 0) = (Inr 105, demo_heap demo_unit (demo_state 3) 0) \<and>
   compute_loss demo_env_failing 0 105 (demo_heap demo_unit (demo_state 3) 0)
     = (Inl ''loss is nan'', demo_heap demo_unit (demo_state 3) 0) \<and>
   train_step demo_env_failing 0 5 (demo_heap demo_unit (demo_state 3) 0, []) =
     (Inl (External ''loss is nan''), demo_heap demo_unit (demo_state 3) 0,
      [Copy_data_to_device 5 ''cuda:0'', Compute_loss 0 105])"
proof -
  let ?h = "demo_heap demo_unit (demo_state 3) 0"
  have a: "copy_data_to_device demo_env_failing 5 (device (self ?h)) ?h = (Inr 105, ?h)"
    by (simp add: demo_env_failing_def demo_env_def)
  have b: "compute_loss demo_env_failing 0 105 ?h = (Inl ''loss is nan'', ?h)"
    by (simp add: demo_env_failing_def)
  from compute_loss_exception_propagates [OF a b] a b show ?thesis
    by (simp add: demo_simps)
qed

subsection \<open>C5: where an error can come from\<close>

lemma train_step_error_origin:
  "after (train_step env st data) (h, tr)
     (\<lambda>r. \<forall>e. outcome r = Inl e \<longrightarrow>
        is_external e
        \<or> (e = AssertionError \<and> train_state (states (final_heap r) st) = None)
        \<or> (e = ZeroDivisionError \<and> log_frequency_steps (self (final_heap r)) = 0))"
  unfolding train_step_def Let_def
  by (intro after_rules) (simp_all add: result_simps)

lemma on_train_epoch_end_error_origin:
  "after (on_train_epoch_end env st) (h, tr)
     (\<lambda>r. \<forall>e. outcome r = Inl e \<longrightarrow>
        is_external e
        \<or> (e = AssertionError \<and> train_state (states (final_heap r) st) = None))"
  unfolding on_train_epoch_end_def Let_def
  by (intro after_rules) (simp_all add: result_simps)

text \<open>
  C5, as stated, fails: with collaborators that all return and a \<open>State\<close> whose
  \<^verbatim>\<open>train_state\<close> is not set, \<^verbatim>\<open>train_step\<close> ends with the AssertionError of the class's own
  \<^verbatim>\<open>assert state.train_state\<close>, after the optimizer has stepped.
\<close>

theorem train_step_own_assertion_counterexample:
  "train_step demo_env 0 5 (demo_heap demo_unit demo_state_unset 0, []) =
     (Inl AssertionError, demo_heap demo_unit demo_state_unset 1001,
      [Copy_data_to_device 5 ''cuda:0'', Compute_loss 0 105, Backward 105, Optimizer_step 7,
       Optimizer_zero_grad 7 True, Lr_scheduler_step 9, Update_metrics 0 105 105 210])
   \<and> \<not> is_external (AssertionError :: string exn)"
  by (simp add: demo_train_step demo_state_unset_def)

text \<open>
  C5, amended. An error that ends \<^verbatim>\<open>train_step\<close> or \<^verbatim>\<open>on_train_epoch_end\<close> was raised by a
  collaborator, with two exceptions raised by the statements of the class: the
  AssertionError of \<^verbatim>\<open>assert state.train_state\<close> (both methods), only when
  \<^verbatim>\<open>state.train_state\<close> is not set, and the ZeroDivisionError of the modulo in \<^verbatim>\<open>train_step\<close>,
  only when \<^verbatim>\<open>log_frequency_steps\<close> is 0. The heap \<open>h'\<close> in which the method ends is the
  one in which the failing statement ran.
\<close>

theorem errors_external_or_own_check:
  "(train_step env st data (h, tr) = (Inl e, h', tr') \<longrightarrow>
      is_external e
      \<or> (e = AssertionError \<and> train_state (states h' st) = None)
      \<or> (e = ZeroDivisionError \<and> log_frequency_steps (self h') = 0))
   \<and> (on_train_epoch_end env st (h, tr) = (Inl e, h', tr') \<longrightarrow>
      is_external e \<or> (e = AssertionError \<and> train_state (states h' st) = None))"
proof (intro conjI impI)
  assume "train_step env st data (h, tr) = (Inl e, h', tr')"
  with afterD [OF train_step_error_origin [of env st data h tr]]
  show "is_external e
      \<or> (e = AssertionError \<and> train_state (states h' st) = None)
      \<or> (e = ZeroDivisionError \<and> log_frequency_steps (self h') = 0)"
    by (simp add: result_simps)
next
  assume "on_train_epoch_end env st (h, tr) = (Inl e, h', tr')"
  with afterD [OF on_train_epoch_end_error_origin [of env st h tr]]
  show "is_external e \<or> (e = AssertionError \<and> train_state (states h' st) = None)"
    by (simp add: result_simps)
qed

theorem errors_external_or_own_check_witness:
  "train_step demo_env 0 5 (demo_heap demo_unit demo_state_unset 0, []) =
     (Inl AssertionError, demo_heap demo_unit demo_state_unset 1001,
      [Copy_data_to_device 5 ''cuda:0'', Compute_loss 0 105, Backward 105, Optimizer_step 7,
       Optimizer_zero_grad 7 True, Lr_scheduler_step 9, Update_metrics 0 105 105 210])
   \<and> train_state (states (demo_heap demo_unit demo_state_unset 1001) 0) = None
   \<and> on_train_epoch_end demo_env 0 (demo_heap demo_unit demo_state_unset 0, []) =
       (Inl AssertionError, demo_heap demo_unit demo_state_unset 0, [])
   \<and> train_state (states (demo_heap demo_unit demo_state_unset 0) 0) = None"
proof -
  have a: "train_step demo_env 0 5 (demo_heap demo_unit demo_state_unset 0, []) =
     (Inl AssertionError, demo_heap demo_unit demo_state_unset 1001,
      [Copy_data_to_device 5 ''cuda:0'', Compute_loss 0 105, Backward 105, Optimizer_step 7,
       Optimizer_zero_grad 7 True, Lr_scheduler_step 9, Update_metrics 0 105 105 210])"
    by (simp add: demo_train_step demo_state_unset_def)
  have b: "on_train_epoch_end demo_env 0 (demo_heap demo_unit demo_state_unset 0, []) =
       (Inl AssertionError, demo_heap demo_unit demo_state_unset 0, [])"
    by (subst on_train_epoch_end_from_line_135
          [where ?h1.0 = "demo_heap demo_unit demo_state_unset 0"])
       (simp_all add: demo_simps demo_state_unset_def)
  from errors_external_or_own_check
         [where env = demo_env and st = 0 and data = 5
            and h = "demo_heap demo_unit demo_state_unset 0" and tr = "[]"
            and e = AssertionError and h' = "demo_heap demo_unit demo_state_unset 1001"
            and tr' = "[Copy_data_to_device 5 ''cuda:0'', Compute_loss 0 105, Backward 105,
                        Optimizer_step 7, Optimizer_zero_grad 7 True, Lr_scheduler_step 9,
                        Update_metrics 0 105 105 210]"] a
  have c: "train_state (states (demo_heap demo_unit demo_state_unset 1001) 0) = None"
    by simp
  from errors_external_or_own_check
         [where env = demo_env and st = 0
            and h = "demo_heap demo_unit demo_state_unset 0" and tr = "[]"
            and e = AssertionError and h' = "demo_heap demo_unit demo_state_unset 0"
            and tr' = "[]"] b
  have d: "train_state (states (demo_heap demo_unit demo_state_unset 0) 0) = None"
    by simp
  from a b c d show ?thesis by simp
qed

subsection \<open>C6: device placement\<close>

lemma train_step_first_call:
  "after (train_step env st data) (h, [])
     (\<lambda>r. \<exists>rest. calls r = Copy_data_to_device data (device (self h)) # rest)"
  unfolding train_step_def Let_def
  by (intro after_rules) (simp_all add: result_simps)

lemma train_step_copied_batch:
  assumes "copy_data_to_device env data (device (self h)) h = (Inr data', h1)"
  shows "after (train_step env st data) (h, [])
     (\<lambda>r. (\<forall>s d. Compute_loss s d \<in> set (calls r) \<longrightarrow> s = st \<and> d = data') \<and>
           (\<forall>s d l out. Update_metrics s d l out \<in> set (calls r) \<longrightarrow> s = st \<and> d = data'))"
  unfolding train_step_def Let_def
  apply (rule after_bind_read)
  apply (rule after_bind_invoke_Inr, rule assms)
  apply (intro after_rules)
  apply (simp_all add: result_simps)
  done

lemma train_step_calls_compute_loss:
  assumes "copy_data_to_device env data (device (self h)) h = (Inr data', h1)"
  shows "after (train_step env st data) (h, [])
     (\<lambda>r. take 2 (calls r) = [Copy_data_to_device data (device (self h)), Compute_loss st data'])"
  unfolding train_step_def Let_def
  apply (rule after_bind_read)
  apply (rule after_bind_invoke_Inr, rule assms)
  apply (intro after_rules)
  apply (simp_all add: result_simps)
  done

lemma train_step_calls_update_metrics:
  assumes "copy_data_to_device env data (device (self h)) h = (Inr data', h1)"
      and "compute_loss env st data' h1 = (Inr (loss, outputs), h2)"
      and "backward env loss h2 = (Inr (), h3)"
      and "optimizer_step env (optimizer (self h3)) h3 = (Inr (), h4)"
      and "optimizer_zero_grad env (optimizer (self h4)) True h4 = (Inr (), h5)"
      and "lr_scheduler_stage env ''step'' h5 = (Inr (), h6)"
  shows "after (train_step env st data) (h, [])
     (\<lambda>r. \<exists>rest. calls r =
        [Copy_data_to_device data (device (self h)), Compute_loss st data', Backward loss,
         Optimizer_step (optimizer (self h3)), Optimizer_zero_grad (optimizer (self h4)) True]
        @ lr_scheduler_calls h5 ''step'' @ Update_metrics st data' loss outputs # rest)"
  unfolding train_step_def Let_def
  apply (rule after_bind_read)
  apply (rule after_bind_invoke_Inr, rule assms)
  apply (rule after_bind_invoke_Inr, rule assms)
  apply (rule after_pair)
  apply (rule after_bind_invoke_Inr, rule assms)
  apply (rule after_bind_read)
  apply (rule after_bind_invoke_Inr, rule assms)
  apply (rule after_bind_read)
  apply (rule after_bind_invoke_Inr, rule assms)
  apply (rule after_bind_read)
  apply (rule after_bind_lr_scheduler, rule assms)
  apply (intro after_rules)
  apply (simp_all add: result_simps)
  done

lemma train_step_copy_raises:
  assumes "copy_data_to_device env data (device (self h)) h = (Inl e, h1)"
  shows "after (train_step env st data) (h, [])
     (\<lambda>r. r = (Inl (External e), h1, [Copy_data_to_device data (device (self h))]))"
  unfolding train_step_def Let_def
  apply (rule after_bind_read)
  apply (rule after_bind_invoke_Inl, rule assms)
  apply simp
  done

lemma init_device_from_env:
  assumes "super_init env h = (Inr (), h0)"
      and "get_device_from_env env
             (h0\<lparr>self := (self h0)\<lparr>optimizer := opt, lr_scheduler := sched,
                step_lr_interval := (case interval of None \<Rightarrow> ''epoch'' | Some i \<Rightarrow> i)\<rparr>\<rparr>)
           = (Inr d, h1)"
  shows "after (init env opt sched interval None freq) (h, [])
     (\<lambda>r. r = (Inr (), h1\<lparr>self := (self h1)\<lparr>device := d, log_frequency_steps := freq\<rparr>\<rparr>,
                [Super_init, Get_device_from_env]))"
  unfolding init_def Let_def
  apply (rule after_bind_invoke_Inr, rule assms)
  apply (intro after_rules)
  using assms(2)
  apply simp_all
  done

lemma init_device_given:
  assumes "super_init env h = (Inr (), h0)"
  shows "after (init env opt sched interval (Some d) freq) (h, [])
     (\<lambda>r. r = (Inr (),
                h0\<lparr>self := (self h0)\<lparr>optimizer := opt, lr_scheduler := sched,
                   step_lr_interval := (case interval of None \<Rightarrow> ''epoch'' | Some i \<Rightarrow> i),
                   device := d, log_frequency_steps := freq\<rparr>\<rparr>,
                [Super_init]))"
  unfolding init_def Let_def
  apply (rule after_bind_invoke_Inr, rule assms)
  apply (intro after_rules)
  apply simp_all
  done

text \<open>
  C6. The first call of every \<^verbatim>\<open>train_step\<close> is the copy of the batch it was given to
  \<^verbatim>\<open>self.device\<close>; if the copy raises, nothing else is called; if it returns \<open>data'\<close>, the
  second call is \<^verbatim>\<open>compute_loss(state, data')\<close>, and no call of \<^verbatim>\<open>compute_loss\<close> or of
  \<^verbatim>\<open>update_metrics\<close> gets another batch; and once the calls up to the scheduler stage have
  returned, \<^verbatim>\<open>update_metrics(state, data', loss, outputs)\<close> is called, right after them.
  \<^verbatim>\<open>__init__\<close> without a device calls \<^verbatim>\<open>get_device_from_env\<close> and stores what it returns
  in \<^verbatim>\<open>self.device\<close>; with a device it stores that one and does not ask the environment.
\<close>

theorem device_placement_first:
  "(\<exists>rest. calls (train_step env st data (h, []))
      = Copy_data_to_device data (device (self h)) # rest)
   \<and> (copy_data_to_device env data (device (self h)) h = (Inl e, h1) \<longrightarrow>
      train_step env st data (h, [])
        = (Inl (External e), h1, [Copy_data_to_device data (device (self h))]))
   \<and> (copy_data_to_device env data (device (self h)) h = (Inr data', h1) \<longrightarrow>
      (\<forall>s d. Compute_loss s d \<in> set (calls (train_step env st data (h, []))) \<longrightarrow>
         s = st \<and> d = data') \<and>
      (\<forall>s d l out. Update_metrics s d l out \<in> set (calls (train_step env st data (h, []))) \<longrightarrow>
         s = st \<and> d = data'))
   \<and> (super_init env k = (Inr (), k0) \<longrightarrow>
      get_device_from_env env
        (k0\<lparr>self := (self k0)\<lparr>optimizer := opt, lr_scheduler := sched,
           step_lr_interval := (case interval of None \<Rightarrow> ''epoch'' | Some i \<Rightarrow> i)\<rparr>\<rparr>)
        = (Inr dev, k1) \<longrightarrow>
      init env opt sched interval None freq (k, [])
        = (Inr (), k1\<lparr>self := (self k1)\<lparr>device := dev, log_frequency_steps := freq\<rparr>\<rparr>,
           [Super_init, Get_device_from_env]))
   \<and> (super_init env k = (Inr (), k0) \<longrightarrow>
      init env opt sched interval (Some dev) freq (k, [])
        = (Inr (),
           k0\<lparr>self := (self k0)\<lparr>optimizer := opt, lr_scheduler := sched,
              step_lr_interval := (case interval of None \<Rightarrow> ''epoch'' | Some i \<Rightarrow> i),
              device := dev, log_frequency_steps := freq\<rparr>\<rparr>,
           [Super_init]))
   \<and> (copy_data_to_device env data (device (self h)) h = (Inr data', h1) \<longrightarrow>
      take 2 (calls (train_step env st data (h, [])))
        = [Copy_data_to_device data (device (self h)), Compute_loss st data'])
   \<and> (copy_data_to_device env data (device (self h)) h = (Inr data', h1) \<longrightarrow>
      compute_loss env st data' h1 = (Inr (loss, outputs), h2) \<longrightarrow>
      backward env loss h2 = (Inr (), h3) \<longrightarrow>
      optimizer_step env (optimizer (self h3)) h3 = (Inr (), h4) \<longrightarrow>
      optimizer_zero_grad env (optimizer (self h4)) True h4 = (Inr (), h5) \<longrightarrow>
      lr_scheduler_stage env ''step'' h5 = (Inr (), h6) \<longrightarrow>
      (\<exists>rest. calls (train_step env st data (h, [])) =
         [Copy_data_to_device data (device (self h)), Compute_loss st data', Backward loss,
          Optimizer_step (optimizer (self h3)), Optimizer_zero_grad (optimizer (self h4)) True]
         @ lr_scheduler_calls h5 ''step'' @ Update_metrics st data' loss outputs # rest))"
proof (intro conjI impI)
  assume "copy_data_to_device env data (device (self h)) h = (Inr data', h1)"
  then show "take 2 (calls (train_step env st data (h, [])))
        = [Copy_data_to_device data (device (self h)), Compute_loss st data']"
    by (rule afterD [OF train_step_calls_compute_loss])
next
  assume "copy_data_to_device env data (device (self h)) h = (Inr data', h1)"
     and "compute_loss env st data' h1 = (Inr (loss, outputs), h2)"
     and "backward env loss h2 = (Inr (), h3)"
     and "optimizer_step env (optimizer (self h3)) h3 = (Inr (), h4)"
     and "optimizer_zero_grad env (optimizer (self h4)) True h4 = (Inr (), h5)"
     and "lr_scheduler_stage env ''step'' h5 = (Inr (), h6)"
  then show "\<exists>rest. calls (train_step env st data (h, [])) =
         [Copy_data_to_device data (device (self h)), Compute_loss st data', Backward loss,
          Optimizer_step (optimizer (self h3)), Optimizer_zero_grad (optimizer (self h4)) True]
         @ lr_scheduler_calls h5 ''step'' @ Update_metrics st data' loss outputs # rest"
    by (rule afterD [OF train_step_calls_update_metrics])
next
  show "\<exists>rest. calls (train_step env st data (h, []))
      = Copy_data_to_device data (device (self h)) # rest"
    by (rule afterD [OF train_step_first_call])
next
  assume "copy_data_to_device env data (device (self h)) h = (Inl e, h1)"
  then show "train_step env st data (h, [])
        = (Inl (External e), h1, [Copy_data_to_device data (device (self h))])"
    by (rule afterD [OF train_step_copy_raises])
next
  assume c: "copy_data_to_device env data (device (self h)) h = (Inr data', h1)"
  from afterD [OF train_step_copied_batch [OF c]]
  show "\<forall>s d. Compute_loss s d \<in> set (calls (train_step env st data (h, []))) \<longrightarrow>
         s = st \<and> d = data'"
    by blast
  from afterD [OF train_step_copied_batch [OF c]]
  show "\<forall>s d l out. Update_metrics s d l out \<in> set (calls (train_step env st data (h, []))) \<longrightarrow>
         s = st \<and> d = data'"
    by blast
next
  assume "super_init env k = (Inr (), k0)"
     and "get_device_from_env env
        (k0\<lparr>self := (self k0)\<lparr>optimizer := opt, lr_scheduler := sched,
           step_lr_interval := (case interval of None \<Rightarrow> ''epoch'' | Some i \<Rightarrow> i)\<rparr>\<rparr>)
        = (Inr dev, k1)"
  then show "init env opt sched interval None freq (k, [])
        = (Inr (), k1\<lparr>self := (self k1)\<lparr>device := dev, log_frequency_steps := freq\<rparr>\<rparr>,
           [Super_init, Get_device_from_env])"
    by (rule afterD [OF init_device_from_env])
next
  assume "super_init env k = (Inr (), k0)"
  then show "init env opt sched interval (Some dev) freq (k, [])
        = (Inr (),
           k0\<lparr>self := (self k0)\<lparr>optimizer := opt, lr_scheduler := sched,
              step_lr_interval := (case interval of None \<Rightarrow> ''epoch'' | Some i \<Rightarrow> i),
              device := dev, log_frequency_steps := freq\<rparr>\<rparr>,
           [Super_init])"
    by (rule afterD [OF init_device_given])
qed

theorem device_placement_first_witness:
  "copy_data_to_device demo_env 5 (device (self (demo_heap demo_unit (demo_state 3) 0)))
     (demo_heap demo_unit (demo_state 3) 0) = (Inr 105, demo_heap demo_unit (demo_state 3) 0)
   \<and> take 2 (calls (train_step demo_env 0 5 (demo_heap demo_unit (demo_state 3) 0, [])))
       = [Copy_data_to_device 5 ''cuda:0'', Compute_loss 0 105]
   \<and> Update_metrics 0 105 105 210 \<in> set (calls (train_step demo_env 0 5
        (demo_heap demo_unit (demo_state 3) 0, [])))
   \<and> Compute_loss 0 5 \<notin> set (calls (train_step demo_env 0 5
        (demo_heap demo_unit (demo_state 3) 0, [])))
   \<and> Update_metrics 0 5 105 210 \<notin> set (calls (train_step demo_env 0 5
        (demo_heap demo_unit (demo_state 3) 0, [])))
   \<and> train_step demo_env_no_device 0 5 (demo_heap demo_unit (demo_state 3) 0, [])
       = (Inl (External ''no such device''), demo_heap demo_unit (demo_state 3) 0,
          [Copy_data_to_device 5 ''cuda:0''])
   \<and> init demo_env 7 None None None 2 (demo_heap demo_unit (demo_state 3) 0, [])
       = (Inr (),
          demo_heap \<lparr> optimizer = 7, lr_scheduler = None, step_lr_interval = ''epoch'',
                      device = ''cpu'', log_frequency_steps = 2 \<rparr> (demo_state 3) 0,
          [Super_init, Get_device_from_env])
   \<and> init demo_env 7 None (Some ''step'') (Some ''cuda:1'') 2
         (demo_heap demo_unit (demo_state 3) 0, [])
       = (Inr (),
          demo_heap \<lparr> optimizer = 7, lr_scheduler = None, step_lr_interval = ''step'',
                      device = ''cuda:1'', log_frequency_steps = 2 \<rparr> (demo_state 3) 0,
          [Super_init])"
proof -
  let ?h = "demo_heap demo_unit (demo_state 3) 0"
  let ?k = "?h\<lparr>self := (self ?h)\<lparr>optimizer := 7, lr_scheduler := None,
                  step_lr_interval := (case None of None \<Rightarrow> ''epoch'' | Some i \<Rightarrow> i)\<rparr>\<rparr>"
  have copy: "copy_data_to_device demo_env 5 (device (self ?h)) ?h = (Inr 105, ?h)"
    by (simp add: demo_simps)
  have nocopy: "copy_data_to_device demo_env_no_device 5 (device (self ?h)) ?h
                  = (Inl ''no such device'', ?h)"
    by (simp add: demo_env_no_device_def)
  have dev: "device (self ?h) = ''cuda:0''"
    by (simp add: demo_simps)
  have sup: "super_init demo_env ?h = (Inr (), ?h)"
    by (simp add: demo_env_calls)
  have env: "get_device_from_env demo_env ?k = (Inr ''cpu'', ?k)"
    by (simp add: demo_env_calls)
  note run = device_placement_first
      [where env = demo_env and st = 0 and data = 5 and h = ?h and data' = 105
         and ?h1.0 = ?h]
  note fail = device_placement_first
      [where env = demo_env_no_device and st = 0 and data = 5 and h = ?h
         and e = "''no such device''" and ?h1.0 = ?h]
  note new = device_placement_first
      [where env = demo_env and k = ?h and ?k0.0 = ?h and opt = 7 and sched = None
         and freq = 2]
  let ?g = "\<lambda>x. demo_heap demo_unit (demo_state 3) x"
  from mp [OF run [THEN conjunct2, THEN conjunct2, THEN conjunct2, THEN conjunct2,
                   THEN conjunct2, THEN conjunct1] copy]
  have f: "take 2 (calls (train_step demo_env 0 5 (?h, [])))
             = [Copy_data_to_device 5 ''cuda:0'', Compute_loss 0 105]"
    by (simp only: dev)
  have "\<exists>rest. calls (train_step demo_env 0 5 (?h, [])) =
         [Copy_data_to_device 5 (device (self ?h)), Compute_loss 0 105, Backward 105,
          Optimizer_step (optimizer (self (?g 0))),
          Optimizer_zero_grad (optimizer (self (?g 1))) True]
         @ lr_scheduler_calls (?g 1) ''step'' @ Update_metrics 0 105 105 210 # rest"
    using device_placement_first
      [where env = demo_env and st = 0 and data = 5 and h = ?h and data' = 105
         and loss = 105 and outputs = 210
         and ?h1.0 = "?g 0" and ?h2.0 = "?g 0" and ?h3.0 = "?g 0" and ?h4.0 = "?g 1"
         and ?h5.0 = "?g 1" and ?h6.0 = "?g 1001",
       THEN conjunct2, THEN conjunct2, THEN conjunct2, THEN conjunct2,
       THEN conjunct2, THEN conjunct2]
    by (simp add: demo_env_calls demo_lr_scheduler_stage demo_heap_sel demo_unit_sel)
  then obtain rest where "calls (train_step demo_env 0 5 (?h, [])) =
         [Copy_data_to_device 5 (device (self ?h)), Compute_loss 0 105, Backward 105,
          Optimizer_step (optimizer (self (?g 0))),
          Optimizer_zero_grad (optimizer (self (?g 1))) True]
         @ lr_scheduler_calls (?g 1) ''step'' @ Update_metrics 0 105 105 210 # rest" ..
  then have g: "Update_metrics 0 105 105 210 \<in> set (calls (train_step demo_env 0 5 (?h, [])))"
    by simp
  from mp [OF run [THEN conjunct2, THEN conjunct2, THEN conjunct1] copy]
  have ab: "(\<forall>s d. Compute_loss s d \<in> set (calls (train_step demo_env 0 5 (?h, []))) \<longrightarrow>
               s = 0 \<and> d = 105) \<and>
            (\<forall>s d l out. Update_metrics s d l out
                 \<in> set (calls (train_step demo_env 0 5 (?h, []))) \<longrightarrow> s = 0 \<and> d = 105)" .
  have a: "Compute_loss 0 5 \<notin> set (calls (train_step demo_env 0 5 (?h, [])))"
  proof
    assume "Compute_loss 0 5 \<in> set (calls (train_step demo_env 0 5 (?h, [])))"
    with ab have "(5 :: nat) = 105" by blast
    then show False by simp
  qed
  have b: "Update_metrics 0 5 105 210 \<notin> set (calls (train_step demo_env 0 5 (?h, [])))"
  proof
    assume "Update_metrics 0 5 105 210 \<in> set (calls (train_step demo_env 0 5 (?h, [])))"
    with ab have "(5 :: nat) = 105" by blast
    then show False by simp
  qed
  from mp [OF fail [THEN conjunct2, THEN conjunct1] nocopy]
  have c: "train_step demo_env_no_device 0 5 (?h, [])
       = (Inl (External ''no such device''), ?h, [Copy_data_to_device 5 ''cuda:0''])"
    by (simp only: dev)
  from mp [OF mp [OF new [where interval = None and dev = "''cpu''" and ?k1.0 = ?k,
                          THEN conjunct2, THEN conjunct2, THEN conjunct2, THEN conjunct1] sup] env]
  have d: "init demo_env 7 None None None 2 (?h, [])
       = (Inr (),
          demo_heap \<lparr> optimizer = 7, lr_scheduler = None, step_lr_interval = ''epoch'',
                      device = ''cpu'', log_frequency_steps = 2 \<rparr> (demo_state 3) 0,
          [Super_init, Get_device_from_env])"
    by (simp add: demo_heap_def demo_unit_def)
  from mp [OF new [where interval = "Some ''step''" and dev = "''cuda:1''",
                   THEN conjunct2, THEN conjunct2, THEN conjunct2, THEN conjunct2,
                   THEN conjunct1] sup]
  have e: "init demo_env 7 None (Some ''step'') (Some ''cuda:1'') 2 (?h, [])
       = (Inr (),
          demo_heap \<lparr> optimizer = 7, lr_scheduler = None, step_lr_interval = ''step'',
                      device = ''cuda:1'', log_frequency_steps = 2 \<rparr> (demo_state 3) 0,
          [Super_init])"
    by (simp add: demo_heap_def demo_unit_def)
  from copy f g a b c d e show ?thesis by (intro conjI)
qed

subsection \<open>C7: what a subclass has to supply\<close>

text \<open>
  C7. Provided every abstract method of the base \<^verbatim>\<open>TrainUnit\<close> is defined by AutoTrainUnit
  (\<^verbatim>\<open>train_step\<close> is), the abstract methods of AutoTrainUnit are \<^verbatim>\<open>compute_loss\<close> alone. A
  subclass can be instantiated exactly when it defines \<^verbatim>\<open>compute_loss\<close> (and declares no
  abstract method of its own); the one that defines only \<^verbatim>\<open>compute_loss\<close> can. The
  \<^verbatim>\<open>update_metrics\<close> and \<^verbatim>\<open>log_metrics\<close> of AutoTrainUnit return \<^verbatim>\<open>None\<close> and leave the heap as
  it is, so that with them \<^verbatim>\<open>train_step\<close> returns the pair of \<^verbatim>\<open>compute_loss\<close> in the heap
  \<open>h6\<close> that the last of the other calls left.
\<close>

theorem only_compute_loss_must_be_supplied:
  "(set inherited \<subseteq> set (map fst AutoTrainUnit_namespace) \<longrightarrow>
      abstractmethods inherited AutoTrainUnit_namespace = [''compute_loss''])
   \<and> (abstractmethods [''compute_loss''] namespace = [] \<longleftrightarrow>
        ''compute_loss'' \<in> set (map fst namespace) \<and> filter snd namespace = [])
   \<and> abstractmethods [''compute_loss''] [(''compute_loss'', False)] = []
   \<and> AutoTrainUnit_update_metrics s d l out k = (Inr (), k)
   \<and> AutoTrainUnit_log_metrics s n i k = (Inr (), k)
   \<and> (update_metrics env = AutoTrainUnit_update_metrics \<longrightarrow>
      log_metrics env = AutoTrainUnit_log_metrics \<longrightarrow>
      copy_data_to_device env data (device (self h)) h = (Inr data', h1) \<longrightarrow>
      compute_loss env st data' h1 = (Inr (loss, outputs), h2) \<longrightarrow>
      backward env loss h2 = (Inr (), h3) \<longrightarrow>
      optimizer_step env (optimizer (self h3)) h3 = (Inr (), h4) \<longrightarrow>
      optimizer_zero_grad env (optimizer (self h4)) True h4 = (Inr (), h5) \<longrightarrow>
      lr_scheduler_stage env ''step'' h5 = (Inr (), h6) \<longrightarrow>
      train_state (states h6 st) = Some ts \<longrightarrow>
      log_frequency_steps (self h6) \<noteq> 0 \<longrightarrow>
      outcome (train_step env st data (h, [])) = Inr (loss, outputs) \<and>
      final_heap (train_step env st data (h, [])) = h6)"
proof (intro conjI impI)
  assume "set inherited \<subseteq> set (map fst AutoTrainUnit_namespace)"
  then have "filter (\<lambda>n. n \<notin> set (map fst AutoTrainUnit_namespace)) inherited = []"
    by (auto simp add: filter_empty_conv)
  then show "abstractmethods inherited AutoTrainUnit_namespace = [''compute_loss'']"
    by (simp add: abstractmethods_def) (simp add: AutoTrainUnit_namespace_def)
next
  show "abstractmethods [''compute_loss''] namespace = [] \<longleftrightarrow>
        ''compute_loss'' \<in> set (map fst namespace) \<and> filter snd namespace = []"
    by (auto simp add: abstractmethods_def)
next
  show "abstractmethods [''compute_loss''] [(''compute_loss'', False)] = []"
    by (simp add: abstractmethods_def)
next
  show "AutoTrainUnit_update_metrics s d l out k = (Inr (), k)"
    by (simp add: AutoTrainUnit_update_metrics_def)
next
  show "AutoTrainUnit_log_metrics s n i k = (Inr (), k)"
    by (simp add: AutoTrainUnit_log_metrics_def)
next
  assume hooks: "update_metrics env = AutoTrainUnit_update_metrics"
    "log_metrics env = AutoTrainUnit_log_metrics"
  assume chain:
    "copy_data_to_device env data (device (self h)) h = (Inr data', h1)"
    "compute_loss env st data' h1 = (Inr (loss, outputs), h2)"
    "backward env loss h2 = (Inr (), h3)"
    "optimizer_step env (optimizer (self h3)) h3 = (Inr (), h4)"
    "optimizer_zero_grad env (optimizer (self h4)) True h4 = (Inr (), h5)"
    "lr_scheduler_stage env ''step'' h5 = (Inr (), h6)"
  assume ts: "train_state (states h6 st) = Some ts"
     and nz: "log_frequency_steps (self h6) \<noteq> 0"
  have um: "update_metrics env st data' loss outputs h6 = (Inr (), h6)"
    by (simp add: hooks AutoTrainUnit_update_metrics_def)
  have lm: "log_metrics env st m j h6 = (Inr (), h6)" for m j
    by (simp add: hooks AutoTrainUnit_log_metrics_def)
  note run = train_step_from_line_121 [OF chain um]
  from ts nz show "outcome (train_step env st data (h, [])) = Inr (loss, outputs)"
    by (simp add: run lm Let_def result_simps)
  from ts nz show "final_heap (train_step env st data (h, [])) = h6"
    by (simp add: run lm Let_def result_simps)
qed

theorem only_compute_loss_must_be_supplied_witness:
  "abstractmethods [''train_step''] AutoTrainUnit_namespace = [''compute_loss'']
   \<and> abstractmethods [''compute_loss''] [(''update_metrics'', False)] \<noteq> []
   \<and> update_metrics demo_env = AutoTrainUnit_update_metrics
   \<and> log_metrics demo_env = AutoTrainUnit_log_metrics
   \<and> outcome (train_step demo_env 0 5 (demo_heap demo_unit (demo_state 3) 0, []))
       = Inr (105, 210)
   \<and> final_heap (train_step demo_env 0 5 (demo_heap demo_unit (demo_state 3) 0, []))
       = demo_heap demo_unit (demo_state 3) 1001"
proof -
  let ?h = "\<lambda>x. demo_heap demo_unit (demo_state 3) x"
  have sub: "set [''train_step''] \<subseteq> set (map fst AutoTrainUnit_namespace)"
    by (simp add: AutoTrainUnit_namespace_def)
  have hooks: "update_metrics demo_env = AutoTrainUnit_update_metrics"
    "log_metrics demo_env = AutoTrainUnit_log_metrics"
    by (simp_all add: demo_env_def)
  have ts: "train_state (states (?h 1001) 0) = Some \<lparr> progress = \<lparr> num_steps_completed = 3 \<rparr> \<rparr>"
    by (simp add: demo_simps demo_state_def)
  note inst = only_compute_loss_must_be_supplied
    [where inherited = "[''train_step'']" and namespace = "[(''update_metrics'', False)]"
       and env = demo_env and st = 0 and data = 5 and h = "?h 0"
       and data' = 105 and loss = 105 and outputs = 210
       and ?h1.0 = "?h 0" and ?h2.0 = "?h 0" and ?h3.0 = "?h 0" and ?h4.0 = "?h 1"
       and ?h5.0 = "?h 1" and ?h6.0 = "?h 1001"
       and ts = "\<lparr> progress = \<lparr> num_steps_completed = 3 \<rparr> \<rparr>"]
  have a: "abstractmethods [''train_step''] AutoTrainUnit_namespace = [''compute_loss'']"
    by (rule mp [OF inst [THEN conjunct1] sub])
  have b: "abstractmethods [''compute_loss''] [(''update_metrics'', False)] \<noteq> []"
    using inst [THEN conjunct2, THEN conjunct1] by simp
  have c: "outcome (train_step demo_env 0 5 (?h 0, [])) = Inr (105, 210) \<and>
           final_heap (train_step demo_env 0 5 (?h 0, [])) = ?h 1001"
    using inst [THEN conjunct2, THEN conjunct2, THEN conjunct2, THEN conjunct2, THEN conjunct2]
      hooks ts
    by (simp add: demo_simps)
  from a b c hooks show ?thesis by (intro conjI) simp_all
qed

subsection \<open>C8: what train_step returns\<close>

lemma train_step_result_origin:
  "after (train_step env st data) (h, [])
     (\<lambda>r. \<forall>p. outcome r = Inr p \<longrightarrow>
        (\<exists>data' h1 h2.
           copy_data_to_device env data (device (self h)) h = (Inr data', h1) \<and>
           compute_loss env st data' h1 = (Inr p, h2)))"
  unfolding train_step_def Let_def
  by (intro after_rules) (simp_all add: result_simps)

text \<open>
  C8. Whenever \<^verbatim>\<open>train_step\<close> returns, what it returns is the pair that \<^verbatim>\<open>compute_loss\<close>
  returned for the batch that \<^verbatim>\<open>copy_data_to_device\<close> returned. And it does return that pair
  when every call it makes returns, \<^verbatim>\<open>state.train_state\<close> is set and
  \<^verbatim>\<open>log_frequency_steps\<close> is not 0.
\<close>

theorem train_step_returns_compute_loss_result:
  "(outcome (train_step env st data (h, [])) = Inr r \<longrightarrow>
      (\<exists>data' h1 h2.
         copy_data_to_device env data (device (self h)) h = (Inr data', h1) \<and>
         compute_loss env st data' h1 = (Inr r, h2)))
   \<and> (copy_data_to_device env data (device (self h)) h = (Inr data', h1) \<longrightarrow>
      compute_loss env st data' h1 = (Inr (loss, outputs), h2) \<longrightarrow>
      backward env loss h2 = (Inr (), h3) \<longrightarrow>
      optimizer_step env (optimizer (self h3)) h3 = (Inr (), h4) \<longrightarrow>
      optimizer_zero_grad env (optimizer (self h4)) True h4 = (Inr (), h5) \<longrightarrow>
      lr_scheduler_stage env ''step'' h5 = (Inr (), h6) \<longrightarrow>
      update_metrics env st data' loss outputs h6 = (Inr (), h7) \<longrightarrow>
      train_state (states h7 st) = Some ts \<longrightarrow>
      log_frequency_steps (self h7) \<noteq> 0 \<longrightarrow>
      (log_frequency_steps (self h7) dvd num_steps_completed (progress ts) + 1 \<longrightarrow>
         fst (log_metrics env st (num_steps_completed (progress ts)) ''step'' h7) = Inr ()) \<longrightarrow>
      outcome (train_step env st data (h, [])) = Inr (loss, outputs))"
proof (intro conjI impI)
  assume "outcome (train_step env st data (h, [])) = Inr r"
  with afterD [OF train_step_result_origin [of env st data h]]
  show "\<exists>data' h1 h2.
         copy_data_to_device env data (device (self h)) h = (Inr data', h1) \<and>
         compute_loss env st data' h1 = (Inr r, h2)"
    by blast
next
  assume chain:
    "copy_data_to_device env data (device (self h)) h = (Inr data', h1)"
    "compute_loss env st data' h1 = (Inr (loss, outputs), h2)"
    "backward env loss h2 = (Inr (), h3)"
    "optimizer_step env (optimizer (self h3)) h3 = (Inr (), h4)"
    "optimizer_zero_grad env (optimizer (self h4)) True h4 = (Inr (), h5)"
    "lr_scheduler_stage env ''step'' h5 = (Inr (), h6)"
    "update_metrics env st data' loss outputs h6 = (Inr (), h7)"
  assume ts: "train_state (states h7 st) = Some ts"
     and nz: "log_frequency_steps (self h7) \<noteq> 0"
     and lm: "log_frequency_steps (self h7) dvd num_steps_completed (progress ts) + 1 \<longrightarrow>
         fst (log_metrics env st (num_steps_completed (progress ts)) ''step'' h7) = Inr ()"
  show "outcome (train_step env st data (h, [])) = Inr (loss, outputs)"
  proof (cases "log_frequency_steps (self h7) dvd num_steps_completed (progress ts) + 1")
    case True
    with lm obtain h8 where
      "log_metrics env st (num_steps_completed (progress ts)) ''step'' h7 = (Inr (), h8)"
      by (cases "log_metrics env st (num_steps_completed (progress ts)) ''step'' h7") simp
    with True nz ts show ?thesis
      by (simp add: train_step_from_line_121 [OF chain] Let_def result_simps dvd_eq_mod_eq_0)
  next
    case False
    with nz ts show ?thesis
      by (simp add: train_step_from_line_121 [OF chain] Let_def result_simps dvd_eq_mod_eq_0)
  qed
qed

theorem train_step_returns_compute_loss_result_witness:
  "outcome (train_step demo_env 0 5 (demo_heap demo_unit (demo_state 3) 0, [])) = Inr (105, 210)
   \<and> (\<exists>data' h1 h2.
         copy_data_to_device demo_env 5 (device (self (demo_heap demo_unit (demo_state 3) 0)))
           (demo_heap demo_unit (demo_state 3) 0) = (Inr data', h1) \<and>
         compute_loss demo_env 0 data' h1 = (Inr (105, 210), h2))"
proof -
  let ?h = "\<lambda>x. demo_heap demo_unit (demo_state 3) x"
  have ts: "train_state (states (?h 1001) 0) = Some \<lparr> progress = \<lparr> num_steps_completed = 3 \<rparr> \<rparr>"
    by (simp add: demo_simps demo_state_def)
  note inst = train_step_returns_compute_loss_result
    [where env = demo_env and st = 0 and data = 5 and h = "?h 0" and r = "(105, 210)"
       and data' = 105 and loss = 105 and outputs = 210
       and ?h1.0 = "?h 0" and ?h2.0 = "?h 0" and ?h3.0 = "?h 0" and ?h4.0 = "?h 1"
       and ?h5.0 = "?h 1" and ?h6.0 = "?h 1001" and ?h7.0 = "?h 1001"
       and ts = "\<lparr> progress = \<lparr> num_steps_completed = 3 \<rparr> \<rparr>"]
  have a: "outcome (train_step demo_env 0 5 (?h 0, [])) = Inr (105, 210)"
    using inst ts by (simp add: demo_simps)
  with inst show ?thesis by blast
qed

subsection \<open>C9: a zero logging frequency\<close>

text \<open>
  C9. Once the calls before the logging check have returned (\<open>h7\<close> is the heap they left):
  if \<^verbatim>\<open>state.train_state\<close> is set and \<^verbatim>\<open>log_frequency_steps\<close> is 0, the call ends with the
  ZeroDivisionError of the modulo, in that heap and without calling \<^verbatim>\<open>log_metrics\<close>, whatever
  the batch and the number of steps completed; and if the call returns normally, then
  \<^verbatim>\<open>log_frequency_steps\<close> is not 0 and \<^verbatim>\<open>state.train_state\<close> is set.
\<close>

theorem zero_log_frequency_raises:
  assumes "copy_data_to_device env data (device (self h)) h = (Inr data', h1)"
      and "compute_loss env st data' h1 = (Inr (loss, outputs), h2)"
      and "backward env loss h2 = (Inr (), h3)"
      and "optimizer_step env (optimizer (self h3)) h3 = (Inr (), h4)"
      and "optimizer_zero_grad env (optimizer (self h4)) True h4 = (Inr (), h5)"
      and "lr_scheduler_stage env ''step'' h5 = (Inr (), h6)"
      and "update_metrics env st data' loss outputs h6 = (Inr (), h7)"
  shows "(train_state (states h7 st) \<noteq> None \<longrightarrow> log_frequency_steps (self h7) = 0 \<longrightarrow>
            outcome (train_step env st data (h, [])) = Inl ZeroDivisionError \<and>
            final_heap (train_step env st data (h, [])) = h7 \<and>
            Log_metrics s n i \<notin> set (calls (train_step env st data (h, []))))
         \<and> (outcome (train_step env st data (h, [])) = Inr r \<longrightarrow>
            log_frequency_steps (self h7) \<noteq> 0 \<and> train_state (states h7 st) \<noteq> None)"
proof (intro conjI impI)
  assume "train_state (states h7 st) \<noteq> None" and "log_frequency_steps (self h7) = 0"
  then show "outcome (train_step env st data (h, [])) = Inl ZeroDivisionError"
    and "final_heap (train_step env st data (h, [])) = h7"
    and "Log_metrics s n i \<notin> set (calls (train_step env st data (h, [])))"
    by (auto simp add: train_step_from_line_121 [OF assms] Let_def result_simps
          Log_metrics_notin_lr_scheduler_calls)
next
  assume r: "outcome (train_step env st data (h, [])) = Inr r"
  show "log_frequency_steps (self h7) \<noteq> 0"
  proof
    assume "log_frequency_steps (self h7) = 0"
    with r show False
      by (cases "train_state (states h7 st)")
         (simp_all add: train_step_from_line_121 [OF assms] Let_def result_simps)
  qed
  show "train_state (states h7 st) \<noteq> None"
  proof
    assume "train_state (states h7 st) = None"
    with r show False
      by (simp add: train_step_from_line_121 [OF assms] Let_def result_simps)
  qed
qed

theorem zero_log_frequency_raises_witness:
  "outcome (train_step demo_env 0 5
      (demo_heap (demo_unit\<lparr>lr_scheduler := None, log_frequency_steps := 0\<rparr>) (demo_state 3) 0, []))
     = Inl ZeroDivisionError
   \<and> log_frequency_steps (self (demo_heap demo_unit (demo_state 3) 1001)) \<noteq> 0
   \<and> train_state (states (demo_heap demo_unit (demo_state 3) 1001) 0) \<noteq> None"
proof -
  let ?u = "demo_unit\<lparr>lr_scheduler := None, log_frequency_steps := 0\<rparr>"
  let ?k = "\<lambda>x. demo_heap ?u (demo_state 3) x"
  let ?h = "\<lambda>x. demo_heap demo_unit (demo_state 3) x"
  have stage: "lr_scheduler_stage demo_env ''step'' (?k 1) = (Inr (), ?k 1)"
    by (simp add: lr_scheduler_stage_def demo_heap_sel)
  have a: "outcome (train_step demo_env 0 5 (?k 0, [])) = Inl ZeroDivisionError"
    using zero_log_frequency_raises
      [where env = demo_env and st = 0 and data = 5 and h = "?k 0"
         and data' = 105 and loss = 105 and outputs = 210
         and ?h1.0 = "?k 0" and ?h2.0 = "?k 0" and ?h3.0 = "?k 0" and ?h4.0 = "?k 1"
         and ?h5.0 = "?k 1" and ?h6.0 = "?k 1" and ?h7.0 = "?k 1"] stage
    by (simp add: demo_env_calls demo_heap_sel demo_unit_sel demo_state_def)
  have r: "outcome (train_step demo_env 0 5 (?h 0, [])) = Inr (105, 210)"
    by (simp add: demo_train_step demo_state_def result_simps)
  have b: "log_frequency_steps (self (?h 1001)) \<noteq> 0 \<and> train_state (states (?h 1001) 0) \<noteq> None"
    using zero_log_frequency_raises
      [where env = demo_env and st = 0 and data = 5 and h = "?h 0" and r = "(105, 210)"
         and data' = 105 and loss = 105 and outputs = 210
         and ?h1.0 = "?h 0" and ?h2.0 = "?h 0" and ?h3.0 = "?h 0" and ?h4.0 = "?h 1"
         and ?h5.0 = "?h 1" and ?h6.0 = "?h 1001" and ?h7.0 = "?h 1001"] r
    by (simp add: demo_simps)
  from a b show ?thesis by simp
qed

subsection \<open>C10: the attributes of the unit are not reassigned\<close>

lemma train_step_keeps:
  assumes "collaborators_keep v env"
  shows "after (train_step env st data) (h, tr) (\<lambda>r. v (final_heap r) = v h)"
proof -
  from assms have k:
    "\<And>d dev. keeps v (copy_data_to_device env d dev)"
    "\<And>s d. keeps v (compute_loss env s d)"
    "\<And>l. keeps v (backward env l)"
    "\<And>p. keeps v (optimizer_step env p)"
    "\<And>p b. keeps v (optimizer_zero_grad env p b)"
    "\<And>sch. keeps v (lr_scheduler_step env sch)"
    "\<And>s d l out. keeps v (update_metrics env s d l out)"
    "\<And>s n i. keeps v (log_metrics env s n i)"
    by (simp_all add: collaborators_keep_def)
  show ?thesis
    unfolding train_step_def Let_def
    by (intro after_bind_invoke_keeps [where v = v, OF k(1)]
          after_bind_invoke_keeps [where v = v, OF k(2)]
          after_bind_invoke_keeps [where v = v, OF k(3)]
          after_bind_invoke_keeps [where v = v, OF k(4)]
          after_bind_invoke_keeps [where v = v, OF k(5)]
          after_bind_invoke_keeps [where v = v, OF k(6)]
          after_bind_invoke_keeps [where v = v, OF k(7)]
          after_bind_invoke_keeps [where v = v, OF k(8)]
          after_invoke_keeps [where v = v, OF k(6)]
          after_invoke_keeps [where v = v, OF k(8)]
          after_steps)
       (simp_all add: result_simps)
qed

lemma on_train_epoch_end_keeps:
  assumes "collaborators_keep v env"
  shows "after (on_train_epoch_end env st) (h, tr) (\<lambda>r. v (final_heap r) = v h)"
proof -
  from assms have k:
    "\<And>sch. keeps v (lr_scheduler_step env sch)"
    "\<And>s n i. keeps v (log_metrics env s n i)"
    by (simp_all add: collaborators_keep_def)
  show ?thesis
    unfolding on_train_epoch_end_def Let_def
    by (intro after_bind_invoke_keeps [where v = v, OF k(1)]
          after_invoke_keeps [where v = v, OF k(2)]
          after_steps)
       (simp_all add: result_simps)
qed

text \<open>
  C10. Neither method assigns to an attribute of the unit: if no collaborator changes the
  unit's attributes, then after \<^verbatim>\<open>train_step\<close> or \<^verbatim>\<open>on_train_epoch_end\<close>, however it ends,
  \<^verbatim>\<open>optimizer\<close>, \<^verbatim>\<open>lr_scheduler\<close>, \<^verbatim>\<open>step_lr_interval\<close>, \<^verbatim>\<open>device\<close> and
  \<^verbatim>\<open>log_frequency_steps\<close> are what they were before.
\<close>

theorem configuration_attributes_unchanged:
  assumes "collaborators_keep self env"
      and "h' = final_heap (train_step env st data (h, tr)) \<or>
           h' = final_heap (on_train_epoch_end env st (h, tr))"
  shows "optimizer (self h') = optimizer (self h) \<and>
         lr_scheduler (self h') = lr_scheduler (self h) \<and>
         step_lr_interval (self h') = step_lr_interval (self h) \<and>
         device (self h') = device (self h) \<and>
         log_frequency_steps (self h') = log_frequency_steps (self h)"
proof -
  from assms(2) have "self h' = self h"
    using afterD [OF train_step_keeps [OF assms(1), of st data h tr]]
          afterD [OF on_train_epoch_end_keeps [OF assms(1), of st h tr]]
    by auto
  then show ?thesis by simp
qed

theorem configuration_attributes_unchanged_witness:
  "collaborators_keep self demo_env
   \<and> final_heap (train_step demo_env 0 5 (demo_heap demo_unit (demo_state 3) 0, []))
       = demo_heap demo_unit (demo_state 3) 1001
   \<and> optimizer (self (demo_heap demo_unit (demo_state 3) 1001)) = 7
   \<and> lr_scheduler (self (demo_heap demo_unit (demo_state 3) 1001)) = Some 9
   \<and> step_lr_interval (self (demo_heap demo_unit (demo_state 3) 1001)) = ''step''
   \<and> device (self (demo_heap demo_unit (demo_state 3) 1001)) = ''cuda:0''
   \<and> log_frequency_steps (self (demo_heap demo_unit (demo_state 3) 1001)) = 2"
proof -
  let ?h = "\<lambda>x. demo_heap demo_unit (demo_state 3) x"
  have a: "collaborators_keep self demo_env"
    by (simp add: collaborators_keep_def keeps_def demo_env_def
          AutoTrainUnit_update_metrics_def AutoTrainUnit_log_metrics_def)
  have b: "final_heap (train_step demo_env 0 5 (?h 0, [])) = ?h 1001"
    by (simp add: demo_train_step demo_state_def result_simps)
  from configuration_attributes_unchanged
         [OF a, where h' = "?h 1001" and st = 0 and data = 5 and h = "?h 0" and tr = "[]"] b
  have "optimizer (self (?h 1001)) = optimizer (self (?h 0)) \<and>
        lr_scheduler (self (?h 1001)) = lr_scheduler (self (?h 0)) \<and>
        step_lr_interval (self (?h 1001)) = step_lr_interval (self (?h 0)) \<and>
        device (self (?h 1001)) = device (self (?h 0)) \<and>
        log_frequency_steps (self (?h 1001)) = log_frequency_steps (self (?h 0))"
    by simp
  with a b show ?thesis by (simp add: demo_simps)
qed

end
